theory Spec2Isabelle
  imports Complex_Main
begin

section \<open>The arbitrage engine of server.js\<close>

text \<open>
  The service is one JavaScript module. Its module-level bindings are the state of the
  process, its asynchronous functions reach the ledger through the ethers library, and a
  timer and two HTTP handlers call them. The embedding keeps the names of the source.

  Numbers. JavaScript numbers are IEEE doubles; they are idealised here as exact
  rationals (\<open>rat\<close>), so \<open>0.01\<close> is the fraction 1/100 and rounding to the nearest
  double is not modelled. Wei amounts are the library's big integers (\<open>nat\<close> for a
  balance the ledger reports, \<open>int\<close> for a parsed amount, which may be negative).
  \<open>x.toFixed(d)\<close> yields a decimal string; it is represented by the number that string
  denotes.
\<close>

subsection \<open>Configuration constants (lines 16-57)\<close>

type_synonym address = string
type_synonym timestamp = nat

definition TREASURY_WALLET_ADDRESS :: address where
  "TREASURY_WALLET_ADDRESS = ''0x0fF31D4cdCE8B3f7929c04EbD4cd852608DC09f4''"

definition COINBASE_WALLET :: address where
  "COINBASE_WALLET = ''0x4024Fd78E2AD5532FBF3ec2B3eC83870FAe45fC7''"

definition ETH_PRICE :: rat where
  "ETH_PRICE = 3450"

definition MIN_GAS_ETH :: rat where
  "MIN_GAS_ETH = 1 / 100"

definition AGGREGATE_PROFIT_ETH :: rat where
  "AGGREGATE_PROFIT_ETH = 1"

definition EXECUTION_RATE_MS :: nat where
  "EXECUTION_RATE_MS = 1000"

definition STRATEGIES_PER_EXECUTION :: nat where
  "STRATEGIES_PER_EXECUTION = 450"

definition REAL_ETH_PROFIT_PER_TRADE :: rat where
  "REAL_ETH_PROFIT_PER_TRADE = AGGREGATE_PROFIT_ETH / of_nat STRATEGIES_PER_EXECUTION"

definition FLASH_LOAN_AMOUNT_ETH :: rat where
  "FLASH_LOAN_AMOUNT_ETH = 1000"

definition AGGREGATE_PROFIT_USD :: rat where
  "AGGREGATE_PROFIT_USD = AGGREGATE_PROFIT_ETH * ETH_PRICE"

text \<open>
  What the process is started with and cannot change afterwards: the two environment
  variables the module reads, and the values the successive calls of \<open>Math.random()\<close>
  return (call number \<open>i\<close> returns \<open>mathRandom h i\<close>, a number in [0, 1)).
\<close>

record host =
  TREASURY_PRIVATE_KEY :: "string option"
  ETHERSCAN_RPC_URL :: "string option"
  mathRandom :: "nat \<Rightarrow> rat"

text \<open>JavaScript truthiness of an environment variable: unset and the empty string are falsy.\<close>

fun truthy :: "string option \<Rightarrow> bool" where
  "truthy None = False"
| "truthy (Some k) = (k \<noteq> [])"

definition PRIVATE_KEY :: "host \<Rightarrow> string option" where
  "PRIVATE_KEY h = TREASURY_PRIVATE_KEY h"

definition PUBLIC_RPC_URLS :: "string list" where
  "PUBLIC_RPC_URLS =
     [''https://ethereum-rpc.publicnode.com'',
      ''https://cloudflare-eth.com'',
      ''https://eth.meowrpc.com'',
      ''https://eth.llamarpc.com'',
      ''https://1rpc.io/eth'']"

definition RPC_URLS :: "host \<Rightarrow> string list" where
  "RPC_URLS h =
     (case ETHERSCAN_RPC_URL h of
        None \<Rightarrow> PUBLIC_RPC_URLS
      | Some url \<Rightarrow> if url \<noteq> [] then url # PUBLIC_RPC_URLS else PUBLIC_RPC_URLS)"

subsection \<open>Simulated strategy data (lines 60-65)\<close>

fun showNat :: "nat \<Rightarrow> string" where
  "showNat n =
     (if n < 10 then [char_of (48 + n)]
      else showNat (n div 10) @ [char_of (48 + n mod 10)])"

record strategy =
  sid :: nat
  path :: string
  profitCheck :: bool

text \<open>
  \<open>Array.from({ length: 450 }, (_, i) => ...)\<close> runs once, when the module is loaded:
  entry \<open>i\<close> takes the \<open>i\<close>-th draw of \<open>Math.random()\<close>. The field \<open>id\<close> of the
  source is \<open>sid\<close> here.
\<close>

definition mkStrategy :: "host \<Rightarrow> nat \<Rightarrow> strategy" where
  "mkStrategy h i =
     \<lparr>sid = i + 1,
      path = ''DEX_A/Token_'' @ showNat i @ '' -> DEX_B/Token_'' @ showNat i,
      profitCheck = (1 / 20 < mathRandom h i)\<rparr>"

definition STRATEGIES :: "host \<Rightarrow> strategy list" where
  "STRATEGIES h = map (mkStrategy h) [0..<450]"

subsection \<open>Module state (lines 67-72)\<close>

datatype jserror = Error (message: string)

record fallbackProvider =
  urls :: "string list"
  quorum :: nat

record wallet =
  privateKey :: string
  address :: address

datatype monitorStatus = initializing | connecting | connected | disconnected

text \<open>
  The payloads \<open>executeStrategyTrade\<close> returns. Each constructor is one object literal
  of the source; the fields whose content is a constant text (\<open>mode\<close>, \<open>message\<close>,
  \<open>etherscanUrl\<close>, which repeats \<open>txHash\<close>) are determined by the constructor and its
  other fields and are not repeated.
\<close>

datatype outcome =
    KeyNotSet
  | NeedsGas (treasuryBalance: rat) (minRequired: rat) (treasuryWallet: address)
  | NoProfitablePaths
  | ArbitrageSuccess (strategiesChecked: nat) (profitablePaths: nat)
      (aggregatedProfitUSD: rat) (aggregatedProfitETH: rat) (flashLoanUsedETH: rat)
      (depositRecipient: address) (txHash: string) (minedBlock: nat)
  | ExecutionFailed (failure: string) (failedProfitETH: rat)

text \<open>The \<open>error\<close> property of a payload, when it has one.\<close>

fun errorOf :: "outcome \<Rightarrow> string option" where
  "errorOf KeyNotSet = Some ''Treasury private key not set. Cannot execute real transactions.''"
| "errorOf (NeedsGas b m a) = Some ''Treasury needs gas funding''"
| "errorOf NoProfitablePaths = None"
| "errorOf (ArbitrageSuccess c p u e f r t b) = None"
| "errorOf (ExecutionFailed msg e) = Some msg"

text \<open>
  The values the variable \<open>lastExecutionResult\<close> can hold: \<open>null\<close>, a payload, or an
  object \<open>{ result, timestamp }\<close> whose \<open>result\<close> is again such a value.
\<close>

datatype lastExecution =
    Null
  | Payload outcome
  | Stamped (result: lastExecution) (stampedAt: timestamp)

record state =
  provider :: "fallbackProvider option"
  signer :: "wallet option"
  lastExecutionResult :: lastExecution
  monitorStatus :: monitorStatus
  totalStrategiesExecuted :: nat
  totalRealizedToTreasury :: rat

definition moduleLoad :: state where
  "moduleLoad =
     \<lparr>provider = None, signer = None, lastExecutionResult = Null,
      monitorStatus = initializing, totalStrategiesExecuted = 0,
      totalRealizedToTreasury = 0\<rparr>"

subsection \<open>The ledger as the module sees it\<close>

record feeData =
  maxFeePerGas :: "int option"
  maxPriorityFeePerGas :: "int option"

record txRequest =
  txTo :: address
  txValue :: int
  gasLimit :: nat
  txMaxFeePerGas :: "int option"
  txMaxPriorityFeePerGas :: "int option"

record txResponse =
  hash :: string

record txReceipt =
  blockNumber :: nat

text \<open>
  Every \<open>await\<close> of the module waits for the ethers library. One run of a handler meets
  each of these call sites at most once, so the ledger's side of a run is a record with
  the outcome of each site: \<open>Inl\<close> is the exception the library throws, \<open>Inr\<close> the value it
  returns. \<open>on_connect\<close> is the outcome of lines 81-84 (building the providers and
  \<open>getBlockNumber\<close>); \<open>on_newWallet\<close> is \<open>new ethers.Wallet(key, provider)\<close>, which
  yields the address of the key or throws on a malformed key.
\<close>

record net =
  on_connect :: "jserror + nat"
  on_newWallet :: "string \<Rightarrow> jserror + address"
  on_getBalance :: "address \<Rightarrow> jserror + nat"
  on_transferBalance :: "address \<Rightarrow> jserror + nat"
  on_getFeeData :: "jserror + feeData"
  on_sendTransaction :: "txRequest \<Rightarrow> jserror + txResponse"
  on_wait :: "txResponse \<Rightarrow> jserror + txReceipt"

text \<open>
  The trace of a run: the requests it sent to the ledger, in order, and an entry
  \<open>TransferEth amount recipient\<close> for each invocation of \<open>transferEth\<close>.
\<close>

datatype call =
    GetBlockNumber
  | GetBalance address
  | GetFeeData
  | SendTransaction txRequest
  | WaitFor string
  | TransferEth rat address

subsection \<open>initProvider (lines 78-105)\<close>

definition connectFailed :: "state \<Rightarrow> state" where
  "connectFailed s = s\<lparr>provider := None, signer := None, monitorStatus := disconnected\<rparr>"

definition initProvider :: "host \<Rightarrow> net \<Rightarrow> state \<Rightarrow> bool \<times> state \<times> call list" where
  "initProvider h w s =
     (let s1 = s\<lparr>monitorStatus := connecting\<rparr> in
      case on_connect w of
        Inl e \<Rightarrow> (False, connectFailed s1, [GetBlockNumber])
      | Inr blockNum \<Rightarrow>
          (let s2 = s1\<lparr>provider := Some \<lparr>urls = RPC_URLS h, quorum = 1\<rparr>,
                        monitorStatus := connected\<rparr> in
           if truthy (PRIVATE_KEY h) then
             (case on_newWallet w (the (PRIVATE_KEY h)) of
                Inl e \<Rightarrow> (False, connectFailed s2, [GetBlockNumber])
              | Inr a \<Rightarrow>
                  (True,
                   s2\<lparr>signer := Some \<lparr>privateKey = the (PRIVATE_KEY h), address = a\<rparr>\<rparr>,
                   [GetBlockNumber]))
           else (True, s2, [GetBlockNumber])))"

subsection \<open>getTreasuryBalance (lines 111-120)\<close>

definition formatEther :: "nat \<Rightarrow> rat" where
  "formatEther wei = of_nat wei / 10 ^ 18"

text \<open>
  The whole body is inside \<open>try\<close>, and \<open>catch\<close> returns 0. If \<open>signer\<close> is set while
  \<open>provider\<close> is \<open>null\<close>, \<open>provider.getBalance\<close> throws a TypeError before any request
  is sent, and the result is 0 as well.
\<close>

definition getTreasuryBalance :: "host \<Rightarrow> net \<Rightarrow> state \<Rightarrow> rat \<times> state \<times> call list" where
  "getTreasuryBalance h w s =
     (let (s1, c1) =
            (if provider s = None \<or> signer s = None
             then (case initProvider h w s of (ok, s', c) \<Rightarrow> (s', c))
             else (s, []))
      in case signer s1 of
           None \<Rightarrow> (0, s1, c1)
         | Some sg \<Rightarrow>
             (case provider s1 of
                None \<Rightarrow> (0, s1, c1)
              | Some p \<Rightarrow>
                  (case on_getBalance w (address sg) of
                     Inl e \<Rightarrow> (0, s1, c1 @ [GetBalance (address sg)])
                   | Inr bal \<Rightarrow> (formatEther bal, s1, c1 @ [GetBalance (address sg)]))))"

subsection \<open>transferEth (lines 126-149)\<close>

text \<open>
  \<open>x.toFixed(d)\<close> rounds the magnitude of \<open>x\<close> to \<open>d\<close> decimals, a tie going up.
  \<open>ethers.parseEther(amountETH.toFixed(18))\<close> is the amount in wei; from 10^21 on,
  \<open>toFixed\<close> answers in exponent notation, which \<open>parseEther\<close> rejects.
\<close>

definition toFixed :: "nat \<Rightarrow> rat \<Rightarrow> rat" where
  "toFixed d x =
     (if 0 \<le> x then of_int \<lfloor>x * 10 ^ d + 1 / 2\<rfloor> / 10 ^ d
      else - (of_int \<lfloor>- x * 10 ^ d + 1 / 2\<rfloor> / 10 ^ d))"

definition parseEtherFixed18 :: "rat \<Rightarrow> jserror + int" where
  "parseEtherFixed18 x =
     (if 10 ^ 21 \<le> \<bar>x\<bar> then Inl (Error ''invalid FixedNumber string value'')
      else if 0 \<le> x then Inr \<lfloor>x * 10 ^ 18 + 1 / 2\<rfloor>
      else Inr (- \<lfloor>- x * 10 ^ 18 + 1 / 2\<rfloor>))"

definition PRIVATE_KEY_NOT_SET :: string where
  "PRIVATE_KEY_NOT_SET = ''Private key not set. Cannot perform real transaction.''"

definition INSUFFICIENT_BALANCE :: string where
  "INSUFFICIENT_BALANCE =
     ''Insufficient ETH balance in Treasury to cover aggregated transfer value.''"

text \<open>
  The function reads the module state and does not assign to it. The result is the
  exception it throws (\<open>Inl\<close>) or \<open>{ tx, receipt }\<close>, with the requests it sent.
\<close>

definition transferEth ::
  "net \<Rightarrow> state \<Rightarrow> rat \<Rightarrow> address \<Rightarrow> (jserror + txResponse \<times> txReceipt) \<times> call list" where
  "transferEth w s amountETH recipient =
     (case signer s of
        None \<Rightarrow> (Inl (Error PRIVATE_KEY_NOT_SET), [])
      | Some sg \<Rightarrow>
          (case parseEtherFixed18 amountETH of
             Inl e \<Rightarrow> (Inl e, [])
           | Inr v \<Rightarrow>
               (case provider s of
                  None \<Rightarrow> (Inl (Error ''Cannot read properties of null''), [])
                | Some p \<Rightarrow>
                    (case on_transferBalance w (address sg) of
                       Inl e \<Rightarrow> (Inl e, [GetBalance (address sg)])
                     | Inr balance \<Rightarrow>
                         if int balance < v
                         then (Inl (Error INSUFFICIENT_BALANCE), [GetBalance (address sg)])
                         else
                           (case on_getFeeData w of
                              Inl e \<Rightarrow> (Inl e, [GetBalance (address sg), GetFeeData])
                            | Inr fee \<Rightarrow>
                                (let req = \<lparr>txTo = recipient, txValue = v, gasLimit = 25000,
                                            txMaxFeePerGas = maxFeePerGas fee,
                                            txMaxPriorityFeePerGas = maxPriorityFeePerGas fee\<rparr>;
                                     sent = [GetBalance (address sg), GetFeeData, SendTransaction req]
                                 in case on_sendTransaction w req of
                                      Inl e \<Rightarrow> (Inl e, sent)
                                    | Inr tx \<Rightarrow>
                                        (case on_wait w tx of
                                           Inl e \<Rightarrow> (Inl e, sent @ [WaitFor (hash tx)])
                                         | Inr receipt \<Rightarrow>
                                             (Inr (tx, receipt), sent @ [WaitFor (hash tx)]))))))))"

subsection \<open>executeStrategyTrade (lines 155-242)\<close>

text \<open>
  One pass of the loop body of lines 176-184 at index \<open>i\<close>, on the three variables
  \<open>profitableStrategies\<close>, \<open>strategyIdsExecuted\<close> and \<open>totalStrategiesExecuted\<close>.
  \<open>STRATEGIES\<close> has 450 entries, so the read at \<open>i < 450\<close> is in range.
\<close>

definition searchStep :: "host \<Rightarrow> nat \<Rightarrow> nat \<times> nat list \<times> nat \<Rightarrow> nat \<times> nat list \<times> nat" where
  "searchStep h i acc =
     (case acc of (profitable, ids, executed) \<Rightarrow>
        (let strategy = STRATEGIES h ! i in
         if profitCheck strategy
         then (profitable + 1, ids @ [sid strategy], executed + 1)
         else (profitable, ids, executed + 1)))"

definition searchStrategies :: "host \<Rightarrow> nat \<Rightarrow> nat \<times> nat list \<times> nat" where
  "searchStrategies h executed = fold (searchStep h) [0..<STRATEGIES_PER_EXECUTION] (0, [], executed)"

text \<open>The \<open>finally\<close> block of lines 236-241.\<close>

definition recordLast :: "timestamp \<Rightarrow> state \<Rightarrow> state" where
  "recordLast now s = s\<lparr>lastExecutionResult := Stamped (lastExecutionResult s) now\<rparr>"

definition executeStrategyTrade ::
  "host \<Rightarrow> net \<Rightarrow> timestamp \<Rightarrow> state \<Rightarrow> outcome \<times> state \<times> call list" where
  "executeStrategyTrade h w now s =
     (case getTreasuryBalance h w s of (balance, s1, c1) \<Rightarrow>
        (case signer s1 of
           None \<Rightarrow> (KeyNotSet, s1, c1)
         | Some sg \<Rightarrow>
             if balance < MIN_GAS_ETH
             then (NeedsGas (toFixed 6 balance) MIN_GAS_ETH (address sg), s1, c1)
             else
               (case searchStrategies h (totalStrategiesExecuted s1) of
                  (profitableStrategies, strategyIdsExecuted, executed) \<Rightarrow>
                    (let s2 = s1\<lparr>totalStrategiesExecuted := executed\<rparr>;
                         profitETH = AGGREGATE_PROFIT_ETH;
                         profitUSD = AGGREGATE_PROFIT_USD
                     in if profitableStrategies = 0 then (NoProfitablePaths, s2, c1)
                        else
                          (case transferEth w s2 profitETH (address sg) of
                             (Inr (tx, receipt), c2) \<Rightarrow>
                               (ArbitrageSuccess STRATEGIES_PER_EXECUTION profitableStrategies
                                  (toFixed 2 profitUSD) (toFixed 6 profitETH)
                                  (toFixed 2 FLASH_LOAN_AMOUNT_ETH) (address sg)
                                  (hash tx) (blockNumber receipt),
                                recordLast now
                                  (s2\<lparr>totalRealizedToTreasury :=
                                        totalRealizedToTreasury s2 + profitUSD\<rparr>),
                                c1 @ TransferEth profitETH (address sg) # c2)
                           | (Inl e, c2) \<Rightarrow>
                               (ExecutionFailed (message e) (toFixed 6 profitETH),
                                recordLast now s2,
                                c1 @ TransferEth profitETH (address sg) # c2))))))"

subsection \<open>The HTTP handlers (lines 269-303)\<close>

record statusJson =
  status :: monitorStatus
  blockchainConnection :: string
  statusTreasuryWallet :: address
  statusTreasuryBalance :: rat
  treasuryBalanceUSD :: rat
  minGasRequired :: rat
  flashLoanCapital :: rat
  totalRealizedToTreasuryUSD :: rat
  realProfitPerTradeETH :: rat
  statusTotalStrategiesExecuted :: nat
  statusLastExecutionResult :: lastExecution
  statusTimestamp :: timestamp

definition getStatus :: "host \<Rightarrow> net \<Rightarrow> timestamp \<Rightarrow> state \<Rightarrow> statusJson \<times> state \<times> call list" where
  "getStatus h w now s =
     (case getTreasuryBalance h w s of (balance, s1, c1) \<Rightarrow>
        (\<lparr>status = monitorStatus s1,
          blockchainConnection =
            (if provider s1 \<noteq> None then ''robust_connected'' else ''disconnected''),
          statusTreasuryWallet =
            (case signer s1 of Some sg \<Rightarrow> address sg | None \<Rightarrow> TREASURY_WALLET_ADDRESS),
          statusTreasuryBalance = toFixed 6 balance,
          treasuryBalanceUSD = toFixed 2 (balance * ETH_PRICE),
          minGasRequired = MIN_GAS_ETH,
          flashLoanCapital = toFixed 2 FLASH_LOAN_AMOUNT_ETH,
          totalRealizedToTreasuryUSD = toFixed 2 (totalRealizedToTreasury s1),
          realProfitPerTradeETH = REAL_ETH_PROFIT_PER_TRADE,
          statusTotalStrategiesExecuted = totalStrategiesExecuted s1,
          statusLastExecutionResult = lastExecutionResult s1,
          statusTimestamp = now\<rparr>,
         s1, c1))"

text \<open>\<open>POST /execute-arbitrage\<close>: the HTTP status code and the body.\<close>

definition postExecuteArbitrage ::
  "host \<Rightarrow> net \<Rightarrow> timestamp \<Rightarrow> state \<Rightarrow> (nat \<times> outcome) \<times> state \<times> call list" where
  "postExecuteArbitrage h w now s =
     (case executeStrategyTrade h w now s of (res, s', c) \<Rightarrow>
        ((if truthy (errorOf res) then 400 else 200, res), s', c))"

subsection \<open>startAutoTrader and the triggers (lines 248-253, 295-303)\<close>

text \<open>
  \<open>executeStrategyTrade\<close> is an \<open>async\<close> function: a call runs to the first \<open>await\<close>
  and hands back a promise; the rest of the body runs when the ledger has answered. A
  settlement is in flight from the call until that promise settles. Between the two, the
  event loop is free to run the timer's callback or a request handler. The engine
  records whether \<open>setInterval\<close> has installed the timer and how many calls of
  \<open>executeStrategyTrade\<close> are in flight; its events are the three things the event loop
  can deliver.
\<close>

record engine =
  timerInstalled :: bool
  inFlight :: nat

datatype event = TimerFires | ManualTrigger | SettlementReturns

definition callExecuteStrategyTrade :: "engine \<Rightarrow> engine" where
  "callExecuteStrategyTrade e = e\<lparr>inFlight := inFlight e + 1\<rparr>"

text \<open>The server is listening, \<open>startAutoTrader\<close> has not run yet.\<close>

definition listening :: engine where
  "listening = \<lparr>timerInstalled = False, inFlight = 0\<rparr>"

definition startAutoTrader :: "engine \<Rightarrow> engine" where
  "startAutoTrader e = (callExecuteStrategyTrade e)\<lparr>timerInstalled := True\<rparr>"

fun dispatch :: "engine \<Rightarrow> event \<Rightarrow> engine" where
  "dispatch e TimerFires = (if timerInstalled e then callExecuteStrategyTrade e else e)"
| "dispatch e ManualTrigger = callExecuteStrategyTrade e"
| "dispatch e SettlementReturns = (if 0 < inFlight e then e\<lparr>inFlight := inFlight e - 1\<rparr> else e)"

definition runEvents :: "engine \<Rightarrow> event list \<Rightarrow> engine" where
  "runEvents e evs = foldl dispatch e evs"

subsection \<open>Reading a trace\<close>

fun isTransferEth :: "call \<Rightarrow> bool" where
  "isTransferEth (TransferEth a r) = True"
| "isTransferEth c = False"

fun isSubmission :: "call \<Rightarrow> bool" where
  "isSubmission (SendTransaction r) = True"
| "isSubmission c = False"

fun isRead :: "call \<Rightarrow> bool" where
  "isRead GetBlockNumber = True"
| "isRead (GetBalance a) = True"
| "isRead c = False"

definition transferAttempts :: "call list \<Rightarrow> call list" where
  "transferAttempts cs = filter isTransferEth cs"

definition submissions :: "call list \<Rightarrow> call list" where
  "submissions cs = filter isSubmission cs"

subsection \<open>The quorum read of the Quorum Client\<close>

text \<open>
  Modelled from the spec: the aggregation of the endpoints' answers is done inside the
  \<open>FallbackProvider\<close> of the ethers library, which the module constructs (line 82, with
  quorum 1) and whose code is not among the sources. Following section 4.1 of the
  specification, a read fans out to all endpoints and collects their responses within a
  timeout (\<open>None\<close> is an endpoint that did not answer in time); it returns the value
  reported by at least \<open>q\<close> endpoints, the endpoints taken in the pool's priority order,
  and fails with \<open>NoQuorum\<close> if no value reaches the quorum.
\<close>

datatype quorumError = NoQuorum

definition agreeing :: "'a \<Rightarrow> 'a option list \<Rightarrow> nat" where
  "agreeing v rs = length (filter (\<lambda>r. r = Some v) rs)"

definition quorumRead :: "nat \<Rightarrow> 'a option list \<Rightarrow> quorumError + 'a" where
  "quorumRead q rs =
     (case find (\<lambda>v. q \<le> agreeing v rs) (List.map_filter (\<lambda>r. r) rs) of
        None \<Rightarrow> Inl NoQuorum
      | Some v \<Rightarrow> Inr v)"

subsection \<open>Sample runs\<close>

text \<open>
  Concrete hosts, ledgers and states on which the functions are evaluated below.
  \<open>demoHost\<close> has a private key and every strategy profitable; \<open>bareHost\<close> has no
  private key; \<open>staleHost\<close> draws no profitable strategy at load, and only numbers above
  0.05 from its 451st draw on. \<open>demoNet\<close> answers every request; the treasury holds
  2 ETH. \<open>poorNet\<close> reports 0.005 ETH, \<open>downNet\<close> cannot connect, and \<open>deafNet\<close>
  connects but fails the balance read.
\<close>

definition demoHost :: host where
  "demoHost =
     \<lparr>TREASURY_PRIVATE_KEY = Some ''0xkey'', ETHERSCAN_RPC_URL = None,
      mathRandom = (\<lambda>i. 1 / 2)\<rparr>"

definition bareHost :: host where
  "bareHost = demoHost\<lparr>TREASURY_PRIVATE_KEY := None\<rparr>"

definition staleHost :: host where
  "staleHost = demoHost\<lparr>mathRandom := (\<lambda>i. if i < 450 then 0 else 1)\<rparr>"

definition demoNet :: net where
  "demoNet =
     \<lparr>on_connect = Inr 100,
      on_newWallet = (\<lambda>k. Inr ''0xTreasury''),
      on_getBalance = (\<lambda>a. Inr (2 * 10 ^ 18)),
      on_transferBalance = (\<lambda>a. Inr (2 * 10 ^ 18)),
      on_getFeeData = Inr \<lparr>maxFeePerGas = Some 30, maxPriorityFeePerGas = Some 2\<rparr>,
      on_sendTransaction = (\<lambda>r. Inr \<lparr>hash = ''0xabc''\<rparr>),
      on_wait = (\<lambda>t. Inr \<lparr>blockNumber = 101\<rparr>)\<rparr>"

definition poorNet :: net where
  "poorNet = demoNet\<lparr>on_getBalance := (\<lambda>a. Inr (5 * 10 ^ 15)),
                       on_transferBalance := (\<lambda>a. Inr (5 * 10 ^ 15))\<rparr>"

definition downNet :: net where
  "downNet = demoNet\<lparr>on_connect := Inl (Error ''could not detect network'')\<rparr>"

definition deafNet :: net where
  "deafNet = demoNet\<lparr>on_getBalance := (\<lambda>a. Inl (Error ''quorum not met''))\<rparr>"

text \<open>The module state once \<open>initProvider\<close> has connected and built the signer.\<close>

definition readyState :: state where
  "readyState =
     moduleLoad\<lparr>provider := Some \<lparr>urls = PUBLIC_RPC_URLS, quorum = 1\<rparr>,
                signer := Some \<lparr>privateKey = ''0xkey'', address = ''0xTreasury''\<rparr>,
                monitorStatus := connected\<rparr>"

subsection \<open>Reading a run\<close>

text \<open>
  What one run of \<open>executeStrategyTrade\<close> (a settlement tick) observes and leaves:
  the value of its variable \<open>balance\<close>, the module's \<open>signer\<close> when the tick tests it
  (after \<open>getTreasuryBalance\<close> has returned), the payload it returns, the module state
  it leaves and the trace of its requests. The same for a read of \<open>GET /status\<close>.
\<close>

definition observedBalance :: "host \<Rightarrow> net \<Rightarrow> state \<Rightarrow> rat" where
  "observedBalance h w s = fst (getTreasuryBalance h w s)"

definition signerAtCheck :: "host \<Rightarrow> net \<Rightarrow> state \<Rightarrow> wallet option" where
  "signerAtCheck h w s = signer (fst (snd (getTreasuryBalance h w s)))"

definition tickOutcome :: "host \<Rightarrow> net \<Rightarrow> timestamp \<Rightarrow> state \<Rightarrow> outcome" where
  "tickOutcome h w now s = fst (executeStrategyTrade h w now s)"

definition tickState :: "host \<Rightarrow> net \<Rightarrow> timestamp \<Rightarrow> state \<Rightarrow> state" where
  "tickState h w now s = fst (snd (executeStrategyTrade h w now s))"

definition tickTrace :: "host \<Rightarrow> net \<Rightarrow> timestamp \<Rightarrow> state \<Rightarrow> call list" where
  "tickTrace h w now s = snd (snd (executeStrategyTrade h w now s))"

definition statusState :: "host \<Rightarrow> net \<Rightarrow> timestamp \<Rightarrow> state \<Rightarrow> state" where
  "statusState h w now s = fst (snd (getStatus h w now s))"

definition statusTrace :: "host \<Rightarrow> net \<Rightarrow> timestamp \<Rightarrow> state \<Rightarrow> call list" where
  "statusTrace h w now s = snd (snd (getStatus h w now s))"

subsection \<open>The confirmation wait (line 147)\<close>










section \<open>Facts about the functions\<close>

subsection \<open>Arithmetic and the strategy search\<close>

lemma floor_numeral_div_rat: "\<lfloor>(numeral a :: rat) / numeral b\<rfloor> = numeral a div numeral b"
  using floor_divide_of_int_eq [of "numeral a" "numeral b", where ?'a = rat] by simp

lemma length_STRATEGIES: "length (STRATEGIES h) = 450"
  by (simp add: STRATEGIES_def)

lemma fold_searchStep:
  "n \<le> length (STRATEGIES h) \<Longrightarrow>
   fold (searchStep h) [0..<n] (p, ids, ex) =
     (p + length (filter profitCheck (take n (STRATEGIES h))),
      ids @ map sid (filter profitCheck (take n (STRATEGIES h))),
      ex + n)"
proof (induction n)
  case 0
  then show ?case by simp
next
  case (Suc n)
  then show ?case
    by (simp add: take_Suc_conv_app_nth searchStep_def Let_def)
qed

lemma searchStrategies_eq:
  "searchStrategies h ex =
     (length (filter profitCheck (STRATEGIES h)),
      map sid (filter profitCheck (STRATEGIES h)),
      ex + 450)"
  using fold_searchStep [of 450 h 0 "[]" ex]
  by (simp add: searchStrategies_def STRATEGIES_PER_EXECUTION_def length_STRATEGIES)

lemma initProvider_frame:
  "initProvider h w s = (ok, s', c) \<Longrightarrow>
   lastExecutionResult s' = lastExecutionResult s \<and>
   totalStrategiesExecuted s' = totalStrategiesExecuted s \<and>
   totalRealizedToTreasury s' = totalRealizedToTreasury s"
  by (auto simp: initProvider_def connectFailed_def Let_def split: sum.splits if_splits)

lemma initProvider_calls:
  "initProvider h w s = (ok, s', c) \<Longrightarrow> c = [GetBlockNumber]"
  by (auto simp: initProvider_def Let_def split: sum.splits if_splits)

lemma getTreasuryBalance_frame:
  "getTreasuryBalance h w s = (b, s1, c1) \<Longrightarrow>
   lastExecutionResult s1 = lastExecutionResult s \<and>
   totalStrategiesExecuted s1 = totalStrategiesExecuted s \<and>
   totalRealizedToTreasury s1 = totalRealizedToTreasury s"
  by (auto simp: getTreasuryBalance_def Let_def split: sum.splits if_splits prod.splits option.splits
      dest: initProvider_frame)

lemma getTreasuryBalance_reads:
  "getTreasuryBalance h w s = (b, s1, c1) \<Longrightarrow> \<forall>c \<in> set c1. isRead c"
  by (auto simp: getTreasuryBalance_def Let_def split: sum.splits if_splits prod.splits option.splits
      dest!: initProvider_calls)

lemma getTreasuryBalance_connected:
  "provider s \<noteq> None \<Longrightarrow> signer s \<noteq> None \<Longrightarrow> getTreasuryBalance h w s = (b, s1, c1) \<Longrightarrow> s1 = s"
  by (auto simp: getTreasuryBalance_def Let_def split: sum.splits if_splits prod.splits option.splits)

lemma getTreasuryBalance_no_signer:
  "getTreasuryBalance h w s = (b, s1, c1) \<Longrightarrow> signer s1 = None \<Longrightarrow> b = 0"
  by (auto simp: getTreasuryBalance_def Let_def split: sum.splits if_splits prod.splits option.splits)

lemma floor_one_div_rat: "\<lfloor>(1 :: rat) / numeral b\<rfloor> = 1 div numeral b"
  using floor_divide_of_int_eq [of 1 "numeral b", where ?'a = rat] by simp

lemma toFixed_0: "toFixed d 0 = 0"
  by (simp add: toFixed_def floor_one_div_rat)

lemma parse_one: "parseEtherFixed18 1 = Inr 1000000000000000000"
  by (simp add: parseEtherFixed18_def floor_numeral_div_rat)

lemma parse_profit: "parseEtherFixed18 AGGREGATE_PROFIT_ETH = Inr 1000000000000000000"
  by (simp add: AGGREGATE_PROFIT_ETH_def parse_one)

lemma profitCheck_mkStrategy: "profitCheck (mkStrategy h i) = (1 / 20 < mathRandom h i)"
  by (simp add: mkStrategy_def)

lemma filter_profitCheck_STRATEGIES:
  "filter profitCheck (STRATEGIES h) =
     map (mkStrategy h) (filter (\<lambda>i. 1 / 20 < mathRandom h i) [0..<450])"
  by (simp add: STRATEGIES_def filter_map comp_def profitCheck_mkStrategy)

lemma profitable_count:
  "fst (searchStrategies h ex) = length (filter (\<lambda>i. 1 / 20 < mathRandom h i) [0..<450])"
  by (simp add: searchStrategies_eq filter_profitCheck_STRATEGIES)

lemma some_profitable:
  "(\<exists>st \<in> set (STRATEGIES h). profitCheck st) \<longleftrightarrow> fst (searchStrategies h ex) \<noteq> 0"
  by (simp add: searchStrategies_eq filter_empty_conv)

subsection \<open>Connecting and reading the balance\<close>

lemma initProvider_status:
  "initProvider h w s = (ok, s', c) \<Longrightarrow>
   c = [GetBlockNumber] \<and> (monitorStatus s' = connected \<or> monitorStatus s' = disconnected)"
  by (auto simp: initProvider_def connectFailed_def Let_def split: sum.splits if_splits)

lemma getTreasuryBalance_reconnects:
  "provider s = None \<or> signer s = None \<Longrightarrow> getTreasuryBalance h w s = (b, s1, c1) \<Longrightarrow>
   (monitorStatus s1 = connected \<or> monitorStatus s1 = disconnected) \<and> hd c1 = GetBlockNumber \<and> c1 \<noteq> []"
  by (auto simp: getTreasuryBalance_def Let_def split: sum.splits if_splits prod.splits option.splits
      dest!: initProvider_status)

lemma getTreasuryBalance_failed_read:
  assumes "getTreasuryBalance h w s = (b, s1, c1)" and "signer s1 = Some sg"
    and "on_getBalance w (address sg) = Inl e"
  shows "b = 0 \<and> getTreasuryBalance h (w\<lparr>on_getBalance := \<lambda>a. Inr 0\<rparr>) s = (0, s1, c1)"
  using assms
  by (auto simp: getTreasuryBalance_def initProvider_def Let_def formatEther_def
      split: sum.splits if_splits prod.splits option.splits)

lemma getStatus_state:
  "getTreasuryBalance h w s = (b, s1, c1) \<Longrightarrow>
   statusState h w now s = s1 \<and> statusTrace h w now s = c1"
  by (simp add: statusState_def statusTrace_def getStatus_def)

subsection \<open>Traces\<close>

lemma isRead_not_transfer: "isRead c \<Longrightarrow> \<not> isTransferEth c \<and> \<not> isSubmission c"
  by (cases c) simp_all

lemma reads_only:
  "\<forall>c \<in> set cs. isRead c \<Longrightarrow> filter isTransferEth cs = [] \<and> filter isSubmission cs = [] \<and>
     (\<forall>req. SendTransaction req \<notin> set cs)"
  by (auto simp: filter_empty_conv dest: isRead_not_transfer)

lemma transferEth_trace:
  "transferEth w s a r = (x, c) \<Longrightarrow>
   filter isTransferEth c = [] \<and> length (filter isSubmission c) \<le> 1 \<and>
   (\<forall>req. SendTransaction req \<in> set c \<longrightarrow> txTo req = r \<and> parseEtherFixed18 a = Inr (txValue req))"
  by (auto simp: transferEth_def Let_def split: option.splits sum.splits if_splits)

subsection \<open>The branches of a tick\<close>

lemma tick_no_signer:
  assumes "getTreasuryBalance h w s = (b, s1, c1)" and "signer s1 = None"
  shows "executeStrategyTrade h w now s = (KeyNotSet, s1, c1)"
  using assms by (simp add: executeStrategyTrade_def)

lemma tick_needs_gas:
  assumes "getTreasuryBalance h w s = (b, s1, c1)" and "signer s1 = Some sg" and "b < MIN_GAS_ETH"
  shows "executeStrategyTrade h w now s = (NeedsGas (toFixed 6 b) MIN_GAS_ETH (address sg), s1, c1)"
  using assms by (simp add: executeStrategyTrade_def)

lemma tick_no_profit:
  assumes "getTreasuryBalance h w s = (b, s1, c1)" and "signer s1 = Some sg"
    and "\<not> b < MIN_GAS_ETH" and "fst (searchStrategies h (totalStrategiesExecuted s1)) = 0"
  shows "executeStrategyTrade h w now s =
           (NoProfitablePaths, s1\<lparr>totalStrategiesExecuted := totalStrategiesExecuted s1 + 450\<rparr>, c1)"
  using assms by (simp add: executeStrategyTrade_def searchStrategies_eq Let_def)

lemma tick_transfer:
  assumes "getTreasuryBalance h w s = (b, s1, c1)" and "signer s1 = Some sg"
    and "\<not> b < MIN_GAS_ETH" and "fst (searchStrategies h (totalStrategiesExecuted s1)) \<noteq> 0"
    and "s2 = s1\<lparr>totalStrategiesExecuted := totalStrategiesExecuted s1 + 450\<rparr>"
    and "transferEth w s2 AGGREGATE_PROFIT_ETH (address sg) = (x, c2)"
  shows "executeStrategyTrade h w now s =
           (case x of
              Inr (tx, receipt) \<Rightarrow>
                (ArbitrageSuccess STRATEGIES_PER_EXECUTION (fst (searchStrategies h (totalStrategiesExecuted s1)))
                   (toFixed 2 AGGREGATE_PROFIT_USD) (toFixed 6 AGGREGATE_PROFIT_ETH)
                   (toFixed 2 FLASH_LOAN_AMOUNT_ETH) (address sg) (hash tx) (blockNumber receipt),
                 recordLast now (s2\<lparr>totalRealizedToTreasury := totalRealizedToTreasury s2 + AGGREGATE_PROFIT_USD\<rparr>),
                 c1 @ TransferEth AGGREGATE_PROFIT_ETH (address sg) # c2)
            | Inl e \<Rightarrow>
                (ExecutionFailed (message e) (toFixed 6 AGGREGATE_PROFIT_ETH), recordLast now s2,
                 c1 @ TransferEth AGGREGATE_PROFIT_ETH (address sg) # c2))"
  using assms by (simp add: executeStrategyTrade_def searchStrategies_eq Let_def split: sum.splits prod.splits)

subsection \<open>Evaluating the sample runs\<close>

lemmas run_defs = observedBalance_def signerAtCheck_def tickOutcome_def tickState_def tickTrace_def

lemmas eval_defs =
  executeStrategyTrade_def getTreasuryBalance_def initProvider_def connectFailed_def
  transferEth_def moduleLoad_def readyState_def demoHost_def bareHost_def staleHost_def
  demoNet_def poorNet_def downNet_def deafNet_def PRIVATE_KEY_def
  formatEther_def MIN_GAS_ETH_def searchStrategies_eq filter_profitCheck_STRATEGIES
  parse_one Let_def toFixed_def AGGREGATE_PROFIT_USD_def AGGREGATE_PROFIT_ETH_def
  ETH_PRICE_def FLASH_LOAN_AMOUNT_ETH_def STRATEGIES_PER_EXECUTION_def
  floor_numeral_div_rat floor_one_div_rat recordLast_def

section \<open>The claims\<close>

subsection \<open>Overlapping ticks\<close>

lemma runEvents_timer_fires:
  "timerInstalled e \<Longrightarrow>
   runEvents e (replicate n TimerFires) = e\<lparr>inFlight := inFlight e + n\<rparr>"
proof (induction n arbitrary: e)
  case 0
  then show ?case by (simp add: runEvents_def)
next
  case (Suc n)
  have step: "timerInstalled (callExecuteStrategyTrade e)"
    using Suc.prems by (simp add: callExecuteStrategyTrade_def)
  have "runEvents e (replicate (Suc n) TimerFires) =
        runEvents (callExecuteStrategyTrade e) (replicate n TimerFires)"
    using Suc.prems by (simp add: runEvents_def)
  also have "\<dots> = (callExecuteStrategyTrade e)\<lparr>inFlight := inFlight (callExecuteStrategyTrade e) + n\<rparr>"
    using Suc.IH [OF step] .
  finally show ?case by (simp add: callExecuteStrategyTrade_def)
qed

text \<open>
  C1, as the claim states it, fails. \<open>startAutoTrader\<close> calls \<open>executeStrategyTrade\<close>
  and installs the timer; if the timer fires before that first settlement has returned,
  a second settlement is started and two are in flight.
\<close>

theorem C1_single_flight_counterexample:
  "\<not> inFlight (runEvents (startAutoTrader listening) [TimerFires]) \<le> 1"
  by (simp add: runEvents_def startAutoTrader_def listening_def callExecuteStrategyTrade_def)

text \<open>
  C1, amended: the code has no single-flight guard. A manual trigger starts a settlement
  whatever the number already in flight, and so does every firing of the installed
  timer; after \<open>startAutoTrader\<close> and \<open>n\<close> firings of the timer with no settlement
  returned in between, \<open>n + 1\<close> settlements are in flight.
\<close>

theorem C1_every_tick_starts_a_settlement:
  "inFlight (dispatch e ManualTrigger) = inFlight e + 1 \<and>
   (timerInstalled e \<longrightarrow> inFlight (dispatch e TimerFires) = inFlight e + 1) \<and>
   inFlight (runEvents (startAutoTrader listening) (replicate n TimerFires)) = n + 1"
proof -
  have installed: "timerInstalled (startAutoTrader listening)"
    by (simp add: startAutoTrader_def)
  have "inFlight (runEvents (startAutoTrader listening) (replicate n TimerFires)) = n + 1"
    by (simp add: runEvents_timer_fires [OF installed])
       (simp add: startAutoTrader_def listening_def callExecuteStrategyTrade_def)
  then show ?thesis
    by (simp add: callExecuteStrategyTrade_def)
qed

theorem C1_every_tick_starts_a_settlement_witness:
  "timerInstalled (startAutoTrader listening) \<and>
   inFlight (dispatch (startAutoTrader listening) ManualTrigger) = 2 \<and>
   inFlight (dispatch (startAutoTrader listening) TimerFires) = 2 \<and>
   inFlight (runEvents (startAutoTrader listening) (replicate 2 TimerFires)) = 3"
  using C1_every_tick_starts_a_settlement [of "startAutoTrader listening" 2]
  by (simp add: startAutoTrader_def listening_def callExecuteStrategyTrade_def)

subsection \<open>The quorum read\<close>

lemma agreeing_find:
  "find (\<lambda>v. q \<le> agreeing v rs) vs = Some v \<Longrightarrow> q \<le> agreeing v rs"
  by (auto simp: find_Some_iff)

lemma reported_set: "v \<in> set (List.map_filter (\<lambda>r. r) rs) \<longleftrightarrow> Some v \<in> set rs"
  by (induction rs) (auto split: option.splits)

lemma reported_find:
  "find P (List.map_filter (\<lambda>r. r) rs) = Some v \<Longrightarrow> Some v \<in> set rs"
  by (auto simp: find_Some_iff reported_set [symmetric])

lemma agreeing_pos: "0 < agreeing v rs \<Longrightarrow> Some v \<in> set rs"
  by (auto simp: agreeing_def filter_empty_conv)

text \<open>
  C2. A balance read of the Quorum Client with threshold \<open>q\<close> returns a value only if
  at least \<open>q\<close> endpoints reported it, fails with \<open>NoQuorum\<close> when no value is
  reported by \<open>q\<close> endpoints, and returns a value when one is. With \<open>q = 2\<close> the
  responses 10, 10, 7 give 10 and the responses 10, 7, 3 give \<open>NoQuorum\<close>; a single
  response is not trusted when \<open>q > 1\<close>. The aggregation is the one of the
  specification (\<open>quorumRead\<close>); the module itself fixes the threshold to 1.
\<close>

theorem C2_quorum_read:
  "(quorumRead q rs = Inr v \<longrightarrow> q \<le> agreeing v rs \<and> Some v \<in> set rs) \<and>
   ((\<forall>u. agreeing u rs < q) \<longrightarrow> quorumRead q rs = Inl NoQuorum) \<and>
   (0 < q \<and> q \<le> agreeing u rs \<longrightarrow> (\<exists>v'. quorumRead q rs = Inr v')) \<and>
   quorumRead 2 [Some 10, Some 10, Some (7::int)] = Inr 10 \<and>
   quorumRead 2 [Some 10, Some 7, Some (3::int)] = Inl NoQuorum \<and>
   (1 < q \<longrightarrow> quorumRead q [Some v] = Inl NoQuorum)"
proof -
  have a: "quorumRead q rs = Inr v \<longrightarrow> q \<le> agreeing v rs \<and> Some v \<in> set rs"
    by (auto simp: quorumRead_def split: option.splits dest: agreeing_find reported_find)
  have b: "(\<forall>u. agreeing u rs < q) \<longrightarrow> quorumRead q rs = Inl NoQuorum"
  proof
    assume "\<forall>u. agreeing u rs < q"
    then have "find (\<lambda>v. q \<le> agreeing v rs) (List.map_filter (\<lambda>r. r) rs) = None"
      by (simp add: find_None_iff not_le)
    then show "quorumRead q rs = Inl NoQuorum"
      by (simp add: quorumRead_def)
  qed
  have c: "0 < q \<and> q \<le> agreeing u rs \<longrightarrow> (\<exists>v'. quorumRead q rs = Inr v')"
  proof
    assume h: "0 < q \<and> q \<le> agreeing u rs"
    then have "Some u \<in> set rs"
      using agreeing_pos [of u rs] by simp
    then have "u \<in> set (List.map_filter (\<lambda>r. r) rs)"
      by (simp add: reported_set)
    with h have "find (\<lambda>v. q \<le> agreeing v rs) (List.map_filter (\<lambda>r. r) rs) \<noteq> None"
      by (auto simp: find_None_iff)
    then show "\<exists>v'. quorumRead q rs = Inr v'"
      by (auto simp: quorumRead_def split: option.splits)
  qed
  have d: "quorumRead 2 [Some 10, Some 10, Some (7::int)] = Inr 10"
    by (simp add: quorumRead_def agreeing_def)
  have e: "quorumRead 2 [Some 10, Some 7, Some (3::int)] = Inl NoQuorum"
    by (simp add: quorumRead_def agreeing_def)
  have f: "1 < q \<longrightarrow> quorumRead q [Some v] = Inl NoQuorum"
    by (simp add: quorumRead_def agreeing_def)
  show ?thesis
    using a b c d e f by blast
qed

text \<open>The theorem at four and at three endpoints, one of which does not answer.\<close>

theorem C2_quorum_read_witness:
  "quorumRead 2 [Some 10, None, Some 7, Some (10::int)] = Inr 10 \<and>
   2 \<le> agreeing (10::int) [Some 10, None, Some 7, Some 10] \<and>
   (\<forall>u. agreeing (u::int) [Some 10, Some 7, None] < 2) \<and>
   quorumRead 2 [Some 10, Some 7, (None :: int option)] = Inl NoQuorum \<and>
   quorumRead 2 [Some (10::int)] = Inl NoQuorum"
proof -
  have h1: "quorumRead 2 [Some 10, None, Some 7, Some (10::int)] = Inr 10"
    by (simp add: quorumRead_def agreeing_def)
  have h2: "\<forall>u. agreeing (u::int) [Some 10, Some 7, None] < 2"
    by (simp add: agreeing_def)
  show ?thesis
    using h1 h2 C2_quorum_read [of 2 "[Some 10, None, Some 7, Some (10::int)]" 10 10]
      C2_quorum_read [of 2 "[Some 10, Some 7, (None :: int option)]" 10 10]
    by simp
qed

subsection \<open>The last execution outcome\<close>

text \<open>
  C3. The claim says that after a tick \<open>lastExecutionResult\<close> is the tick's own payload
  with its timestamp. The code assigns \<open>{ result: lastExecutionResult, timestamp }\<close> in
  the \<open>finally\<close> block: it wraps the previous value of the variable, not the payload. On
  the first tick of \<open>demoHost\<close> against \<open>demoNet\<close> the transfer succeeds and the
  variable becomes \<open>{ result: null, timestamp: 9 }\<close>; a following tick that stops at the
  balance check returns before the \<open>try\<close> block and leaves the variable as it was.
\<close>

theorem C3_last_outcome_wraps_previous_value:
  "tickOutcome demoHost demoNet 9 moduleLoad =
     ArbitrageSuccess 450 450 3450 1 1000 ''0xTreasury'' ''0xabc'' 101 \<and>
   lastExecutionResult (tickState demoHost demoNet 9 moduleLoad) = Stamped Null 9 \<and>
   lastExecutionResult (tickState demoHost demoNet 9 moduleLoad) \<noteq>
     Stamped (Payload (tickOutcome demoHost demoNet 9 moduleLoad)) 9 \<and>
   tickOutcome demoHost poorNet 10 (tickState demoHost demoNet 9 moduleLoad) =
     NeedsGas (5 / 1000) (1 / 100) ''0xTreasury'' \<and>
   lastExecutionResult (tickState demoHost poorNet 10 (tickState demoHost demoNet 9 moduleLoad)) =
     Stamped Null 9"
proof -
  have first: "executeStrategyTrade demoHost demoNet 9 moduleLoad =
     (ArbitrageSuccess 450 450 3450 1 1000 ''0xTreasury'' ''0xabc'' 101,
      \<lparr>provider = Some \<lparr>urls = PUBLIC_RPC_URLS, quorum = 1\<rparr>,
       signer = Some \<lparr>privateKey = ''0xkey'', address = ''0xTreasury''\<rparr>,
       lastExecutionResult = Stamped Null 9, monitorStatus = connected,
       totalStrategiesExecuted = 450, totalRealizedToTreasury = 3450\<rparr>,
      [GetBlockNumber, GetBalance ''0xTreasury'', TransferEth 1 ''0xTreasury'',
       GetBalance ''0xTreasury'', GetFeeData,
       SendTransaction \<lparr>txTo = ''0xTreasury'', txValue = 1000000000000000000, gasLimit = 25000,
                         txMaxFeePerGas = Some 30, txMaxPriorityFeePerGas = Some 2\<rparr>,
       WaitFor ''0xabc''])"
    by (simp add: eval_defs RPC_URLS_def)
  show ?thesis
    unfolding run_defs first by (simp add: eval_defs)
qed

subsection \<open>The transfer of a tick\<close>

text \<open>
  C4. In every tick in which a signer is present when the tick tests it, the observed
  balance is at least \<open>MIN_GAS_ETH\<close> and the strategy batch has at least one
  profitable entry, \<open>transferEth\<close> is invoked exactly once, for
  \<open>AGGREGATE_PROFIT_ETH\<close> (whatever the number of profitable entries) and to the
  signer's own address; at most one transaction is submitted, of 10^18 wei to that
  address.
\<close>

theorem C4_one_fixed_transfer_to_self:
  assumes sg: "signerAtCheck h w s = Some sg"
    and enough: "MIN_GAS_ETH \<le> observedBalance h w s"
    and positive: "\<exists>st \<in> set (STRATEGIES h). profitCheck st"
  shows "transferAttempts (tickTrace h w now s) = [TransferEth AGGREGATE_PROFIT_ETH (address sg)] \<and>
         length (submissions (tickTrace h w now s)) \<le> 1 \<and>
         (\<forall>req. SendTransaction req \<in> set (tickTrace h w now s) \<longrightarrow>
            txTo req = address sg \<and> txValue req = 10 ^ 18)"
proof -
  obtain b s1 c1 where bal: "getTreasuryBalance h w s = (b, s1, c1)"
    by (cases "getTreasuryBalance h w s") auto
  have sg1: "signer s1 = Some sg" and b: "\<not> b < MIN_GAS_ETH"
    using sg enough bal by (simp_all add: run_defs)
  have pos: "fst (searchStrategies h (totalStrategiesExecuted s1)) \<noteq> 0"
    using positive some_profitable by blast
  define s2 where "s2 = s1\<lparr>totalStrategiesExecuted := totalStrategiesExecuted s1 + 450\<rparr>"
  obtain x c2 where tr: "transferEth w s2 AGGREGATE_PROFIT_ETH (address sg) = (x, c2)"
    by (cases "transferEth w s2 AGGREGATE_PROFIT_ETH (address sg)") auto
  have trace: "tickTrace h w now s = c1 @ TransferEth AGGREGATE_PROFIT_ETH (address sg) # c2"
    using tick_transfer [OF bal sg1 b pos s2_def tr, of now]
    by (simp add: tickTrace_def split: sum.splits prod.splits)
  have c1: "filter isTransferEth c1 = []" "filter isSubmission c1 = []"
    "\<forall>req. SendTransaction req \<notin> set c1"
    using reads_only [OF getTreasuryBalance_reads [OF bal]] by simp_all
  have c2: "filter isTransferEth c2 = []" "length (filter isSubmission c2) \<le> 1"
    "\<forall>req. SendTransaction req \<in> set c2 \<longrightarrow> txTo req = address sg \<and> txValue req = 10 ^ 18"
    using transferEth_trace [OF tr] by (simp_all add: parse_profit)
  show ?thesis
    using c1 c2 by (simp add: trace transferAttempts_def submissions_def)
qed

text \<open>The first tick of \<open>demoHost\<close> against \<open>demoNet\<close>: one transfer of 1 ETH, one submission.\<close>

theorem C4_one_fixed_transfer_to_self_witness:
  "signerAtCheck demoHost demoNet moduleLoad = Some \<lparr>privateKey = ''0xkey'', address = ''0xTreasury''\<rparr> \<and>
   MIN_GAS_ETH \<le> observedBalance demoHost demoNet moduleLoad \<and>
   (\<exists>st \<in> set (STRATEGIES demoHost). profitCheck st) \<and>
   transferAttempts (tickTrace demoHost demoNet 9 moduleLoad) = [TransferEth 1 ''0xTreasury''] \<and>
   length (submissions (tickTrace demoHost demoNet 9 moduleLoad)) = 1"
proof -
  have h1: "signerAtCheck demoHost demoNet moduleLoad = Some \<lparr>privateKey = ''0xkey'', address = ''0xTreasury''\<rparr>"
    by (simp add: run_defs eval_defs)
  have h2: "MIN_GAS_ETH \<le> observedBalance demoHost demoNet moduleLoad"
    by (simp add: run_defs eval_defs)
  have h3: "\<exists>st \<in> set (STRATEGIES demoHost). profitCheck st"
    unfolding some_profitable [of demoHost 0] profitable_count by (simp add: demoHost_def)
  have h4: "length (submissions (tickTrace demoHost demoNet 9 moduleLoad)) = 1"
    by (simp add: run_defs eval_defs submissions_def)
  show ?thesis
    using h1 h2 h3 h4 C4_one_fixed_transfer_to_self [OF h1 h2 h3, of 9]
    by (simp add: AGGREGATE_PROFIT_ETH_def)
qed

subsection \<open>Insufficient funds\<close>

text \<open>
  C5. When \<open>transferEth\<close> is called with an amount that, in wei, exceeds the balance
  the ledger reports for the signer's account, it throws the insufficient-balance error
  and the only request it has sent is that balance read: no fee data is fetched and no
  transaction is signed or submitted.
\<close>

theorem C5_insufficient_funds_sends_nothing:
  assumes "signer s = Some sg" and "provider s = Some p"
    and "parseEtherFixed18 amountETH = Inr v"
    and "on_transferBalance w (address sg) = Inr balance"
    and "int balance < v"
  shows "transferEth w s amountETH recipient =
           (Inl (Error INSUFFICIENT_BALANCE), [GetBalance (address sg)]) \<and>
         submissions (snd (transferEth w s amountETH recipient)) = [] \<and>
         GetFeeData \<notin> set (snd (transferEth w s amountETH recipient))"
  using assms by (simp add: transferEth_def submissions_def)

text \<open>A transfer of 1 ETH from an account that holds 0.005 ETH.\<close>

theorem C5_insufficient_funds_sends_nothing_witness:
  "signer readyState = Some \<lparr>privateKey = ''0xkey'', address = ''0xTreasury''\<rparr> \<and>
   parseEtherFixed18 1 = Inr (10 ^ 18) \<and>
   on_transferBalance poorNet ''0xTreasury'' = Inr (5 * 10 ^ 15) \<and>
   transferEth poorNet readyState 1 ''0xTreasury'' =
     (Inl (Error INSUFFICIENT_BALANCE), [GetBalance ''0xTreasury''])"
proof -
  have h1: "signer readyState = Some \<lparr>privateKey = ''0xkey'', address = ''0xTreasury''\<rparr>"
    by (simp add: readyState_def)
  have h2: "provider readyState = Some \<lparr>urls = PUBLIC_RPC_URLS, quorum = 1\<rparr>"
    by (simp add: readyState_def)
  have h3: "parseEtherFixed18 1 = Inr (10 ^ 18)"
    by (simp add: parse_one)
  have h4: "on_transferBalance poorNet (address \<lparr>privateKey = ''0xkey'', address = ''0xTreasury''\<rparr>) = Inr (5 * 10 ^ 15)"
    by (simp add: poorNet_def demoNet_def)
  have h5: "int (5 * 10 ^ 15) < 10 ^ 18"
    by simp
  show ?thesis
    using h1 h3 h4 C5_insufficient_funds_sends_nothing [OF h1 h2 h3 h4 h5, of "''0xTreasury''"]
    by simp
qed

subsection \<open>A balance below the minimum\<close>

text \<open>
  C6, as the claim states it, fails: the tick tests the signer before the balance. With
  no private key the observed balance is 0, below the minimum, and the tick answers
  that the private key is not set; it does not report that the treasury needs funding.
\<close>

theorem C6_needs_funding_counterexample:
  "observedBalance bareHost demoNet moduleLoad < MIN_GAS_ETH \<and>
   tickOutcome bareHost demoNet 9 moduleLoad = KeyNotSet \<and>
   errorOf (tickOutcome bareHost demoNet 9 moduleLoad) \<noteq> Some ''Treasury needs gas funding''"
  by (simp add: run_defs eval_defs)

text \<open>
  C6, amended. In every tick whose observed balance is below \<open>MIN_GAS_ETH\<close>: if a
  signer is present the tick returns the needs-funding payload with the observed
  balance (at six decimals), the threshold and the signer's address, and if none is
  present it returns the key-not-set payload; in both cases \<open>transferEth\<close> is not
  invoked, nothing is submitted, and \<open>totalStrategiesExecuted\<close> and
  \<open>totalRealizedToTreasury\<close> are unchanged.
\<close>

theorem C6_low_balance_aborts:
  assumes low: "observedBalance h w s < MIN_GAS_ETH"
  shows "(\<forall>sg. signerAtCheck h w s = Some sg \<longrightarrow>
            tickOutcome h w now s =
              NeedsGas (toFixed 6 (observedBalance h w s)) MIN_GAS_ETH (address sg)) \<and>
         (signerAtCheck h w s = None \<longrightarrow> tickOutcome h w now s = KeyNotSet) \<and>
         transferAttempts (tickTrace h w now s) = [] \<and>
         submissions (tickTrace h w now s) = [] \<and>
         totalStrategiesExecuted (tickState h w now s) = totalStrategiesExecuted s \<and>
         totalRealizedToTreasury (tickState h w now s) = totalRealizedToTreasury s"
proof -
  obtain b s1 c1 where bal: "getTreasuryBalance h w s = (b, s1, c1)"
    by (cases "getTreasuryBalance h w s") auto
  have b: "b < MIN_GAS_ETH"
    using low bal by (simp add: run_defs)
  have c1: "filter isTransferEth c1 = []" "filter isSubmission c1 = []"
    using reads_only [OF getTreasuryBalance_reads [OF bal]] by simp_all
  note frame = getTreasuryBalance_frame [OF bal]
  show ?thesis
  proof (cases "signer s1")
    case None
    show ?thesis
      using tick_no_signer [OF bal None, of now] bal None c1 frame
      by (simp add: run_defs transferAttempts_def submissions_def)
  next
    case (Some sg)
    show ?thesis
      using tick_needs_gas [OF bal Some b, of now] bal Some c1 frame
      by (simp add: run_defs transferAttempts_def submissions_def)
  qed
qed

text \<open>Balance 0.005 ETH, threshold 0.01 ETH.\<close>

theorem C6_low_balance_aborts_witness:
  "observedBalance demoHost poorNet readyState < MIN_GAS_ETH \<and>
   tickOutcome demoHost poorNet 9 readyState = NeedsGas (5 / 1000) (1 / 100) ''0xTreasury'' \<and>
   transferAttempts (tickTrace demoHost poorNet 9 readyState) = [] \<and>
   totalStrategiesExecuted (tickState demoHost poorNet 9 readyState) = 0 \<and>
   totalRealizedToTreasury (tickState demoHost poorNet 9 readyState) = 0"
proof -
  have h1: "observedBalance demoHost poorNet readyState < MIN_GAS_ETH"
    by (simp add: run_defs eval_defs)
  have h2: "signerAtCheck demoHost poorNet readyState = Some \<lparr>privateKey = ''0xkey'', address = ''0xTreasury''\<rparr>"
    by (simp add: run_defs eval_defs)
  have h3: "toFixed 6 (observedBalance demoHost poorNet readyState) = 5 / 1000"
    by (simp add: run_defs eval_defs)
  have h4: "totalStrategiesExecuted readyState = 0 \<and> totalRealizedToTreasury readyState = 0"
    by (simp add: readyState_def moduleLoad_def)
  show ?thesis
    using h1 h2 h3 h4 C6_low_balance_aborts [OF h1, of 9]
    by (simp add: MIN_GAS_ETH_def)
qed

subsection \<open>The signal batch\<close>

text \<open>
  C7, as the claim states it, fails: no tick draws a batch. \<open>staleHost\<close> draws 450
  numbers that are not above 0.05 when the module is loaded, and only numbers above
  0.05 afterwards; the first tick and the tick after it both find no profitable path,
  since both read the batch stored at load.
\<close>

theorem C7_fresh_batch_counterexample:
  "tickOutcome staleHost demoNet 1 readyState = NoProfitablePaths \<and>
   tickOutcome staleHost demoNet 2 (tickState staleHost demoNet 1 readyState) = NoProfitablePaths \<and>
   1 / 20 < mathRandom staleHost 450 \<and> 1 / 20 < mathRandom staleHost 900"
  by (simp add: run_defs eval_defs)

text \<open>
  C7, amended. The batch is drawn once, when the module is loaded, from the first 450
  draws of \<open>Math.random()\<close>, and is kept for the life of the process. Every tick that
  passes the signer and balance checks evaluates that stored batch: it reports no
  profitable path exactly when none of those 450 draws is above 0.05, a success payload
  carries the number of those draws above 0.05, and the check counter grows by 450.
\<close>

theorem C7_batch_drawn_once_at_load:
  assumes sg: "signerAtCheck h w s \<noteq> None"
    and enough: "MIN_GAS_ETH \<le> observedBalance h w s"
  shows "(tickOutcome h w now s = NoProfitablePaths \<longleftrightarrow> (\<forall>i<450. \<not> 1 / 20 < mathRandom h i)) \<and>
         (\<forall>c p u e f r t b. tickOutcome h w now s = ArbitrageSuccess c p u e f r t b \<longrightarrow>
            p = length (filter (\<lambda>i. 1 / 20 < mathRandom h i) [0..<450])) \<and>
         totalStrategiesExecuted (tickState h w now s) = totalStrategiesExecuted s + 450"
proof -
  obtain b s1 c1 where bal: "getTreasuryBalance h w s = (b, s1, c1)"
    by (cases "getTreasuryBalance h w s") auto
  obtain sg1 where sg1: "signer s1 = Some sg1"
    using sg bal by (auto simp: run_defs)
  have b: "\<not> b < MIN_GAS_ETH"
    using enough bal by (simp add: run_defs)
  note frame = getTreasuryBalance_frame [OF bal]
  let ?n = "length (filter (\<lambda>i. 1 / 20 < mathRandom h i) [0..<450])"
  have n: "fst (searchStrategies h (totalStrategiesExecuted s1)) = ?n"
    by (rule profitable_count)
  have zero: "?n = 0 \<longleftrightarrow> (\<forall>i<450. \<not> 1 / 20 < mathRandom h i)"
    by (auto simp: filter_empty_conv)
  show ?thesis
  proof (cases "?n = 0")
    case True
    show ?thesis
      using tick_no_profit [OF bal sg1 b, of now] n True zero frame
      by (simp add: run_defs)
  next
    case False
    define s2 where "s2 = s1\<lparr>totalStrategiesExecuted := totalStrategiesExecuted s1 + 450\<rparr>"
    obtain x c2 where tr: "transferEth w s2 AGGREGATE_PROFIT_ETH (address sg1) = (x, c2)"
      by (cases "transferEth w s2 AGGREGATE_PROFIT_ETH (address sg1)") auto
    have pos: "fst (searchStrategies h (totalStrategiesExecuted s1)) \<noteq> 0"
      using n False by simp
    show ?thesis
      using tick_transfer [OF bal sg1 b pos s2_def tr, of now] n False zero frame
      by (auto simp: run_defs s2_def recordLast_def split: sum.splits prod.splits)
  qed
qed

text \<open>A tick of \<open>staleHost\<close>.\<close>

theorem C7_batch_drawn_once_at_load_witness:
  "signerAtCheck staleHost demoNet readyState \<noteq> None \<and>
   MIN_GAS_ETH \<le> observedBalance staleHost demoNet readyState \<and>
   tickOutcome staleHost demoNet 1 readyState = NoProfitablePaths \<and>
   totalStrategiesExecuted (tickState staleHost demoNet 1 readyState) = 450"
proof -
  have h1: "signerAtCheck staleHost demoNet readyState \<noteq> None"
    by (simp add: run_defs eval_defs)
  have h2: "MIN_GAS_ETH \<le> observedBalance staleHost demoNet readyState"
    by (simp add: run_defs eval_defs)
  have h3: "\<forall>i<450. \<not> 1 / 20 < mathRandom staleHost i"
    by (simp add: staleHost_def)
  have h4: "totalStrategiesExecuted readyState = 0"
    by (simp add: readyState_def moduleLoad_def)
  show ?thesis
    using h1 h2 h3 h4 C7_batch_drawn_once_at_load [OF h1 h2, of 1]
    by simp
qed

subsection \<open>The status read\<close>

text \<open>
  C9, as the claim states it, fails: \<open>GET /status\<close> calls \<open>getTreasuryBalance\<close>,
  which runs \<open>initProvider\<close> whenever \<open>provider\<close> or \<open>signer\<close> is unset. A status
  read of a disconnected module whose ledger is reachable leaves it connected, with a
  provider.
\<close>

theorem C9_status_read_counterexample:
  "monitorStatus (connectFailed moduleLoad) = disconnected \<and>
   provider (connectFailed moduleLoad) = None \<and>
   monitorStatus (statusState bareHost demoNet 9 (connectFailed moduleLoad)) = connected \<and>
   provider (statusState bareHost demoNet 9 (connectFailed moduleLoad)) =
     Some \<lparr>urls = PUBLIC_RPC_URLS, quorum = 1\<rparr>"
  by (simp add: statusState_def getStatus_def eval_defs RPC_URLS_def)

text \<open>
  C9, amended. A status read never changes \<open>lastExecutionResult\<close>,
  \<open>totalStrategiesExecuted\<close> or \<open>totalRealizedToTreasury\<close>. When \<open>provider\<close> and
  \<open>signer\<close> are both set it leaves the whole module state unchanged. When one of them
  is unset it first runs \<open>initProvider\<close>: its first request is the connection probe and
  it leaves \<open>monitorStatus\<close> at \<open>connected\<close> or \<open>disconnected\<close>.
\<close>

theorem C9_status_read_effects:
  "lastExecutionResult (statusState h w now s) = lastExecutionResult s \<and>
   totalStrategiesExecuted (statusState h w now s) = totalStrategiesExecuted s \<and>
   totalRealizedToTreasury (statusState h w now s) = totalRealizedToTreasury s \<and>
   (provider s \<noteq> None \<and> signer s \<noteq> None \<longrightarrow> statusState h w now s = s) \<and>
   (provider s = None \<or> signer s = None \<longrightarrow>
      hd (statusTrace h w now s) = GetBlockNumber \<and>
      (monitorStatus (statusState h w now s) = connected \<or>
       monitorStatus (statusState h w now s) = disconnected))"
proof -
  obtain b s1 c1 where bal: "getTreasuryBalance h w s = (b, s1, c1)"
    by (cases "getTreasuryBalance h w s") auto
  note st = getStatus_state [OF bal, of now]
  show ?thesis
    using getTreasuryBalance_frame [OF bal] getTreasuryBalance_connected [of s h w b s1 c1]
      getTreasuryBalance_reconnects [of s h w b s1 c1] bal
    by (simp add: st)
qed

text \<open>A status read of the connected module, and one of the module just loaded.\<close>

theorem C9_status_read_effects_witness:
  "provider readyState \<noteq> None \<and> signer readyState \<noteq> None \<and>
   statusState demoHost demoNet 9 readyState = readyState \<and>
   hd (statusTrace bareHost demoNet 9 moduleLoad) = GetBlockNumber \<and>
   monitorStatus (statusState bareHost demoNet 9 moduleLoad) = connected"
proof -
  have h1: "provider readyState \<noteq> None \<and> signer readyState \<noteq> None"
    by (simp add: readyState_def)
  have h2: "provider moduleLoad = None"
    by (simp add: moduleLoad_def)
  have h3: "monitorStatus (statusState bareHost demoNet 9 moduleLoad) = connected"
    by (simp add: statusState_def getStatus_def eval_defs)
  show ?thesis
    using h1 h2 h3 C9_status_read_effects [of demoHost demoNet 9 readyState]
      C9_status_read_effects [of bareHost demoNet 9 moduleLoad]
    by simp
qed

subsection \<open>The balance read that fails\<close>

text \<open>
  C10, as the claim states it, fails in its last part: when the read is unavailable
  because no signer could be built, the tick does not report that the treasury needs
  funding. Here the private key is configured and the ledger cannot be reached.
\<close>

theorem C10_unavailable_read_counterexample:
  "truthy (PRIVATE_KEY demoHost) \<and>
   observedBalance demoHost downNet moduleLoad = 0 \<and>
   tickOutcome demoHost downNet 9 moduleLoad = KeyNotSet \<and>
   errorOf (tickOutcome demoHost downNet 9 moduleLoad) \<noteq> Some ''Treasury needs gas funding''"
  by (simp add: run_defs eval_defs)

text \<open>
  C10, amended. \<open>getTreasuryBalance\<close> always returns a number. When no signer is
  present after it has run (no private key, or the connection failed) it returns 0 and
  the tick returns the key-not-set payload. When a signer is present and the provider's
  read throws, it returns 0 and the tick returns the needs-funding payload with balance
  0; the whole run is then the same as against a ledger that reports a balance of 0.
\<close>

theorem C10_balance_read_defaults_to_zero:
  "(signerAtCheck h w s = None \<longrightarrow>
      observedBalance h w s = 0 \<and> tickOutcome h w now s = KeyNotSet) \<and>
   (\<forall>sg e. signerAtCheck h w s = Some sg \<and> on_getBalance w (address sg) = Inl e \<longrightarrow>
      observedBalance h w s = 0 \<and>
      tickOutcome h w now s = NeedsGas 0 MIN_GAS_ETH (address sg) \<and>
      executeStrategyTrade h w now s =
        executeStrategyTrade h (w\<lparr>on_getBalance := \<lambda>a. Inr 0\<rparr>) now s)"
proof -
  obtain b s1 c1 where bal: "getTreasuryBalance h w s = (b, s1, c1)"
    by (cases "getTreasuryBalance h w s") auto
  have none: "signer s1 = None \<Longrightarrow> b = 0 \<and> tickOutcome h w now s = KeyNotSet"
    using getTreasuryBalance_no_signer [OF bal] tick_no_signer [OF bal, of now]
    by (simp add: run_defs)
  have some: "b = 0 \<and> tickOutcome h w now s = NeedsGas 0 MIN_GAS_ETH (address sg) \<and>
      executeStrategyTrade h w now s =
        executeStrategyTrade h (w\<lparr>on_getBalance := \<lambda>a. Inr 0\<rparr>) now s"
    if sg: "signer s1 = Some sg" and e: "on_getBalance w (address sg) = Inl e" for sg e
  proof -
    have b0: "b = 0" and bal': "getTreasuryBalance h (w\<lparr>on_getBalance := \<lambda>a. Inr 0\<rparr>) s = (0, s1, c1)"
      using getTreasuryBalance_failed_read [OF bal sg e] by simp_all
    have low: "(0::rat) < MIN_GAS_ETH"
      by (simp add: MIN_GAS_ETH_def)
    have bal0: "getTreasuryBalance h w s = (0, s1, c1)"
      using bal b0 by simp
    show ?thesis
      using tick_needs_gas [OF bal0 sg low, of now] tick_needs_gas [OF bal' sg low, of now] b0
      by (simp add: run_defs toFixed_0)
  qed
  have read: "signerAtCheck h w s = signer s1" "observedBalance h w s = b"
    using bal by (simp_all add: run_defs)
  show ?thesis
    unfolding read using none some by blast
qed

text \<open>A module with no private key, and a connected module whose balance read throws.\<close>

theorem C10_balance_read_defaults_to_zero_witness:
  "signerAtCheck bareHost demoNet moduleLoad = None \<and>
   observedBalance bareHost demoNet moduleLoad = 0 \<and>
   signerAtCheck demoHost deafNet readyState = Some \<lparr>privateKey = ''0xkey'', address = ''0xTreasury''\<rparr> \<and>
   on_getBalance deafNet ''0xTreasury'' = Inl (Error ''quorum not met'') \<and>
   observedBalance demoHost deafNet readyState = 0 \<and>
   tickOutcome demoHost deafNet 9 readyState = NeedsGas 0 (1 / 100) ''0xTreasury''"
proof -
  have h1: "signerAtCheck bareHost demoNet moduleLoad = None"
    by (simp add: run_defs eval_defs)
  have h2: "signerAtCheck demoHost deafNet readyState = Some \<lparr>privateKey = ''0xkey'', address = ''0xTreasury''\<rparr>"
    by (simp add: run_defs eval_defs)
  have h3: "on_getBalance deafNet ''0xTreasury'' = Inl (Error ''quorum not met'')"
    by (simp add: deafNet_def)
  show ?thesis
    using h1 h2 h3 C10_balance_read_defaults_to_zero [of bareHost demoNet moduleLoad 9]
      C10_balance_read_defaults_to_zero [of demoHost deafNet readyState 9]
    by (simp add: MIN_GAS_ETH_def)
qed

subsection \<open>The confirmation wait\<close>





end
